theory Spec2Isabelle
  imports Complex_Main
begin

section \<open>Numbers\<close>

text \<open>
  Every JavaScript Number of the simulator is read as a real: the arithmetic of the page
  is the closed-form formula over the reals, without the rounding of binary doubles.
  The one place where a non-finite Number can arise from finite operands is the division
  that computes \<open>roi\<close>, so a division result is a \<open>jsnum\<close>.
\<close>

datatype jsnum = Finite real | PosInfinity | NegInfinity | NaN

definition js_div :: "real \<Rightarrow> real \<Rightarrow> jsnum" where
  \<comment> \<open>\<open>a / b\<close> on Numbers: \<open>0 / 0\<close> is NaN, a non-zero dividend over \<open>0\<close> is an infinity.\<close>
  "js_div a b =
     (if b = 0 then (if a = 0 then NaN else if 0 < a then PosInfinity else NegInfinity)
      else Finite (a / b))"

definition toFixed3 :: "real \<Rightarrow> real" where
  \<comment> \<open>\<open>Number(x.toFixed(3))\<close>: the sign is set aside, a magnitude of at least \<open>10^21\<close> is
      printed as it is, otherwise the nearest multiple of \<open>1/1000\<close>, the larger one on a tie.\<close>
  "toFixed3 x =
     (let a = \<bar>x\<bar> in
      if 10 ^ 21 \<le> a then x
      else (if x < 0 then - 1 else 1) * (of_int \<lfloor>a * 1000 + 1 / 2\<rfloor> / 1000))"

section \<open>Data model of \<open>pages/index.js\<close>\<close>

text \<open>
  The keys of the literal objects \<open>countryData\<close>, \<open>policies\<close>/\<open>aiInterventions\<close> and
  \<open>baseFactors\<close> are closed enumerations: the page only ever reads and writes these keys.
\<close>

datatype country_key = south_korea | japan

datatype policy = aiEducation | workplaceAI | childcareAI | housingAI

datatype factor = educationCost | workLifeBalance | childcareCost | housingCost

record demographics =
  population :: real
  gdpPerCapita :: real
  femaleParticipation :: real

record country =
  baseTFR :: real
  baseFactors :: "factor \<Rightarrow> real"
  demographics :: demographics

record intervention =
  maxImpact :: real
  costPerPoint :: real
  factors :: "factor list"

type_synonym policies = "policy \<Rightarrow> real"

fun sk_baseFactors :: "factor \<Rightarrow> real" where
  "sk_baseFactors educationCost = 85"
| "sk_baseFactors workLifeBalance = 25"
| "sk_baseFactors childcareCost = 70"
| "sk_baseFactors housingCost = 90"

fun jp_baseFactors :: "factor \<Rightarrow> real" where
  "jp_baseFactors educationCost = 75"
| "jp_baseFactors workLifeBalance = 30"
| "jp_baseFactors childcareCost = 65"
| "jp_baseFactors housingCost = 80"

fun countryData :: "country_key \<Rightarrow> country" where
  "countryData south_korea =
     \<lparr>baseTFR = 0.72, baseFactors = sk_baseFactors,
      demographics = \<lparr>population = 51.8, gdpPerCapita = 35000, femaleParticipation = 59.2\<rparr>\<rparr>"
| "countryData japan =
     \<lparr>baseTFR = 1.20, baseFactors = jp_baseFactors,
      demographics = \<lparr>population = 124.8, gdpPerCapita = 40000, femaleParticipation = 71.2\<rparr>\<rparr>"

fun aiInterventions :: "policy \<Rightarrow> intervention" where
  "aiInterventions aiEducation =
     \<lparr>maxImpact = 0.15, costPerPoint = 50000, factors = [educationCost]\<rparr>"
| "aiInterventions workplaceAI =
     \<lparr>maxImpact = 0.12, costPerPoint = 75000, factors = [workLifeBalance]\<rparr>"
| "aiInterventions childcareAI =
     \<lparr>maxImpact = 0.10, costPerPoint = 60000, factors = [childcareCost]\<rparr>"
| "aiInterventions housingAI =
     \<lparr>maxImpact = 0.08, costPerPoint = 100000, factors = [housingCost]\<rparr>"

fun mk_policies :: "real \<Rightarrow> real \<Rightarrow> real \<Rightarrow> real \<Rightarrow> policies" where
  \<comment> \<open>The object literal \<open>{ aiEducation: a, workplaceAI: w, childcareAI: ch, housingAI: h }\<close>
      that \<open>setPolicies\<close> receives.\<close>
  "mk_policies a w ch h aiEducation = a"
| "mk_policies a w ch h workplaceAI = w"
| "mk_policies a w ch h childcareAI = ch"
| "mk_policies a w ch h housingAI = h"

definition policy_keys :: "policy list" where
  \<comment> \<open>\<open>Object.keys(policies)\<close>, in insertion order.\<close>
  "policy_keys = [aiEducation, workplaceAI, childcareAI, housingAI]"

section \<open>The projection engine of \<open>pages/index.js\<close>\<close>

text \<open>The variables that the \<open>forEach\<close> over the policies updates.\<close>

record loop_state =
  tfrImpact :: real
  totalCost_acc :: real
  factorReductions_acc :: "factor \<Rightarrow> real"
  policyImpacts_acc :: "policy \<rightharpoonup> real"
  policyCosts_acc :: "policy \<rightharpoonup> real"

definition factor_step :: "real \<Rightarrow> factor \<Rightarrow> (factor \<Rightarrow> real) \<Rightarrow> (factor \<Rightarrow> real)" where
  \<comment> \<open>The body of \<open>intervention.factors.forEach\<close>.\<close>
  "factor_step intensity f fr =
     (let isPositiveFactor = (f = workLifeBalance);
          multiplier = (if isPositiveFactor then 1 + intensity * 0.4 else 1 - intensity * 0.4)
      in fr(f := fr f * multiplier))"

definition policy_step :: "policies \<Rightarrow> policy \<Rightarrow> loop_state \<Rightarrow> loop_state" where
  \<comment> \<open>The body of \<open>Object.keys(policies).forEach\<close>.\<close>
  "policy_step pols p s =
     (let intervention = aiInterventions p;
          intensity = pols p / 100;
          policyImpact = maxImpact intervention * intensity;
          policyCost = costPerPoint intervention * pols p
      in \<lparr>tfrImpact = tfrImpact s + policyImpact,
          totalCost_acc = totalCost_acc s + policyCost,
          factorReductions_acc =
            fold (factor_step intensity) (factors intervention) (factorReductions_acc s),
          policyImpacts_acc = (policyImpacts_acc s)(p \<mapsto> policyImpact),
          policyCosts_acc = (policyCosts_acc s)(p \<mapsto> policyCost / 1000000)\<rparr>)"

definition policy_loop :: "policies \<Rightarrow> country \<Rightarrow> loop_state" where
  "policy_loop pols c =
     fold (policy_step pols) policy_keys
       \<lparr>tfrImpact = 0, totalCost_acc = 0, factorReductions_acc = baseFactors c,
        policyImpacts_acc = Map.empty, policyCosts_acc = Map.empty\<rparr>"

definition finalTFRIncrease :: "real \<Rightarrow> real" where
  "finalTFRIncrease t = t * (1 - exp (- 2 * t))"

record projection_point =
  year :: nat
  baseline :: real
  projected :: real
  target :: real

definition projection_point_at :: "country \<Rightarrow> real \<Rightarrow> nat \<Rightarrow> projection_point" where
  \<comment> \<open>One turn of the loop \<open>for (year = 0; year <= 20; year++)\<close>.\<close>
  "projection_point_at c projTFR y =
     (let progress = min 1 (real y / 10);
          currentTFR = baseTFR c + (projTFR - baseTFR c) * progress
      in \<lparr>year = 2025 + y, baseline = baseTFR c, projected = toFixed3 currentTFR,
          target = 2.1\<rparr>)"

record result =
  projectedTFR :: real
  tfrIncrease :: real
  totalCost :: real
  projectionData :: "projection_point list"
  factorReductions :: "factor \<Rightarrow> real"
  economicBenefit :: real
  roi :: jsnum
  populationIncrease :: real
  policyImpacts :: "policy \<rightharpoonup> real"
  policyCosts :: "policy \<rightharpoonup> real"

definition simulateTFRImpactForCountry :: "policies \<Rightarrow> country_key \<Rightarrow> result" where
  "simulateTFRImpactForCountry pols countryKey =
     (let c = countryData countryKey;
          s = policy_loop pols c;
          finalInc = finalTFRIncrease (tfrImpact s);
          projTFR = min 2.5 (baseTFR c + finalInc);
          projData = map (projection_point_at c projTFR) [0..<21];
          averageTFRIncrease = (projTFR - baseTFR c) / 2;
          popIncrease = averageTFRIncrease * population (demographics c) * 1000;
          econBenefit = popIncrease * gdpPerCapita (demographics c) * 0.8
      in \<lparr>projectedTFR = projTFR,
          tfrIncrease = projTFR - baseTFR c,
          totalCost = totalCost_acc s / 1000000,
          projectionData = projData,
          factorReductions = factorReductions_acc s,
          economicBenefit = econBenefit / 1000000000,
          roi = js_div econBenefit (totalCost_acc s),
          populationIncrease = popIncrease,
          policyImpacts = policyImpacts_acc s,
          policyCosts = policyCosts_acc s\<rparr>)"

section \<open>The single-country page \<open>pages/index1.js\<close>\<close>

fun countryData1 :: "country_key \<Rightarrow> country" where
  "countryData1 south_korea =
     \<lparr>baseTFR = 0.72, baseFactors = sk_baseFactors,
      demographics = \<lparr>population = 51.8, gdpPerCapita = 35000, femaleParticipation = 59.2\<rparr>\<rparr>"
| "countryData1 japan =
     \<lparr>baseTFR = 1.26, baseFactors = jp_baseFactors,
      demographics = \<lparr>population = 124.8, gdpPerCapita = 40000, femaleParticipation = 71.2\<rparr>\<rparr>"

fun aiInterventions1 :: "policy \<Rightarrow> intervention" where
  "aiInterventions1 aiEducation =
     \<lparr>maxImpact = 0.15, costPerPoint = 50000, factors = [educationCost]\<rparr>"
| "aiInterventions1 workplaceAI =
     \<lparr>maxImpact = 0.12, costPerPoint = 75000, factors = [workLifeBalance]\<rparr>"
| "aiInterventions1 childcareAI =
     \<lparr>maxImpact = 0.10, costPerPoint = 60000, factors = [childcareCost]\<rparr>"
| "aiInterventions1 housingAI =
     \<lparr>maxImpact = 0.08, costPerPoint = 100000, factors = [housingCost]\<rparr>"

record loop_state1 =
  tfrImpact1 :: real
  totalCost_acc1 :: real
  factorReductions_acc1 :: "factor \<Rightarrow> real"

definition factor_step1 :: "real \<Rightarrow> factor \<Rightarrow> (factor \<Rightarrow> real) \<Rightarrow> (factor \<Rightarrow> real)" where
  "factor_step1 intensity f fr = fr(f := fr f * (1 - intensity * 0.4))"

definition policy_step1 :: "policies \<Rightarrow> policy \<Rightarrow> loop_state1 \<Rightarrow> loop_state1" where
  "policy_step1 pols p s =
     (let intervention = aiInterventions1 p;
          intensity = pols p / 100;
          policyImpact = maxImpact intervention * intensity
      in \<lparr>tfrImpact1 = tfrImpact1 s + policyImpact,
          totalCost_acc1 = totalCost_acc1 s + costPerPoint intervention * pols p,
          factorReductions_acc1 =
            fold (factor_step1 intensity) (factors intervention) (factorReductions_acc1 s)\<rparr>)"

definition policy_loop1 :: "policies \<Rightarrow> country \<Rightarrow> loop_state1" where
  "policy_loop1 pols c =
     fold (policy_step1 pols) policy_keys
       \<lparr>tfrImpact1 = 0, totalCost_acc1 = 0, factorReductions_acc1 = baseFactors c\<rparr>"

definition projection_point_at1 :: "country \<Rightarrow> real \<Rightarrow> nat \<Rightarrow> projection_point" where
  \<comment> \<open>One turn of the loop \<open>for (year = 0; year <= 10; year++)\<close>.\<close>
  "projection_point_at1 c projTFR y =
     (let progress = min 1 (real y / 7);
          currentTFR = baseTFR c + (projTFR - baseTFR c) * progress
      in \<lparr>year = 2025 + y, baseline = baseTFR c, projected = toFixed3 currentTFR,
          target = 2.1\<rparr>)"

record result1 =
  projectedTFR1 :: real
  tfrIncrease1 :: real
  totalCost1 :: real
  projectionData1 :: "projection_point list"
  factorReductions1 :: "factor \<Rightarrow> real"
  economicBenefit1 :: real
  roi1 :: jsnum
  populationIncrease1 :: real

definition simulateTFRImpact :: "policies \<Rightarrow> country_key \<Rightarrow> result1" where
  \<comment> \<open>The value passed to \<open>setResults\<close>, from the states \<open>policies\<close> and \<open>selectedCountry\<close>.\<close>
  "simulateTFRImpact pols selectedCountry =
     (let c = countryData1 selectedCountry;
          s = policy_loop1 pols c;
          finalInc = finalTFRIncrease (tfrImpact1 s);
          projTFR = min 2.5 (baseTFR c + finalInc);
          projData = map (projection_point_at1 c projTFR) [0..<11];
          popIncrease = (projTFR - baseTFR c) * population (demographics c) * 10000;
          econBenefit = popIncrease * gdpPerCapita (demographics c) * 0.7
      in \<lparr>projectedTFR1 = projTFR,
          tfrIncrease1 = projTFR - baseTFR c,
          totalCost1 = totalCost_acc1 s / 1000000,
          projectionData1 = projData,
          factorReductions1 = factorReductions_acc1 s,
          economicBenefit1 = econBenefit / 1000000000,
          roi1 = js_div econBenefit (totalCost_acc1 s),
          populationIncrease1 = popIncrease\<rparr>)"

section \<open>What the loop over the policies computes\<close>

lemma loop_tfrImpact:
  "tfrImpact (policy_loop pols c) =
     0.15 * (pols aiEducation / 100) + 0.12 * (pols workplaceAI / 100)
     + 0.10 * (pols childcareAI / 100) + 0.08 * (pols housingAI / 100)"
  by (simp add: policy_loop_def policy_keys_def policy_step_def Let_def)

lemma loop_totalCost:
  "totalCost_acc (policy_loop pols c) =
     50000 * pols aiEducation + 75000 * pols workplaceAI
     + 60000 * pols childcareAI + 100000 * pols housingAI"
  by (simp add: policy_loop_def policy_keys_def policy_step_def Let_def)

lemma loop_factorReductions:
  "factorReductions_acc (policy_loop pols c) =
     (\<lambda>f. case f of
        educationCost \<Rightarrow> baseFactors c educationCost * (1 - pols aiEducation / 100 * 0.4)
      | workLifeBalance \<Rightarrow> baseFactors c workLifeBalance * (1 + pols workplaceAI / 100 * 0.4)
      | childcareCost \<Rightarrow> baseFactors c childcareCost * (1 - pols childcareAI / 100 * 0.4)
      | housingCost \<Rightarrow> baseFactors c housingCost * (1 - pols housingAI / 100 * 0.4))"
  by (auto simp add: policy_loop_def policy_keys_def policy_step_def factor_step_def Let_def fun_eq_iff split: factor.splits)

lemma loop_policyImpacts:
  "policyImpacts_acc (policy_loop pols c) p = Some (maxImpact (aiInterventions p) * (pols p / 100))"
  by (cases p) (simp_all add: policy_loop_def policy_keys_def policy_step_def Let_def)

lemma loop_policyCosts:
  "policyCosts_acc (policy_loop pols c) p = Some (costPerPoint (aiInterventions p) * pols p / 1000000)"
  by (cases p) (simp_all add: policy_loop_def policy_keys_def policy_step_def Let_def)

section \<open>The saturating transform\<close>

lemma finalTFRIncrease_mono:
  assumes "0 \<le> s" "s \<le> t"
  shows "finalTFRIncrease s \<le> finalTFRIncrease t"
  unfolding finalTFRIncrease_def
  using assms by (intro mult_mono) auto

lemma finalTFRIncrease_nonneg: "0 \<le> finalTFRIncrease t"
  unfolding finalTFRIncrease_def
  by (cases "0 \<le> t") (auto simp: zero_le_mult_iff not_le intro: less_imp_le)

lemma finalTFRIncrease_le_self:
  assumes "0 \<le> t" shows "finalTFRIncrease t \<le> t"
proof -
  have "t * (1 - exp (- 2 * t)) \<le> t * 1"
    using assms by (intro mult_left_mono) auto
  then show ?thesis by (simp add: finalTFRIncrease_def)
qed

section \<open>Projected rate\<close>

lemma sim_projectedTFR:
  "projectedTFR (simulateTFRImpactForCountry pols c) =
     min 2.5 (baseTFR (countryData c)
              + finalTFRIncrease (tfrImpact (policy_loop pols (countryData c))))"
  by (simp add: simulateTFRImpactForCountry_def Let_def)

lemma tfrImpact_nonneg:
  assumes "\<forall>q. 0 \<le> pols q"
  shows "0 \<le> tfrImpact (policy_loop pols c)"
proof -
  have "0 \<le> pols aiEducation" "0 \<le> pols workplaceAI" "0 \<le> pols childcareAI"
       "0 \<le> pols housingAI"
    using assms by auto
  then show ?thesis by (simp add: loop_tfrImpact)
qed

lemma tfrImpact_le:
  assumes "\<forall>q. 0 \<le> pols q \<and> pols q \<le> 100"
  shows "tfrImpact (policy_loop pols c) \<le> 0.45"
proof -
  have "pols aiEducation \<le> 100" "pols workplaceAI \<le> 100" "pols childcareAI \<le> 100"
       "pols housingAI \<le> 100"
    using assms by auto
  then show ?thesis by (simp add: loop_tfrImpact)
qed

lemma tfrImpact_mono:
  assumes "x \<le> y"
  shows "tfrImpact (policy_loop (pols(p := x)) c) \<le> tfrImpact (policy_loop (pols(p := y)) c)"
  using assms by (cases p) (simp_all add: loop_tfrImpact)

text \<open>
  C1. For every country and every intensity vector with all four intensities in \<open>[0,100]\<close>,
  raising the intensity of one policy from \<open>x\<close> to \<open>y\<close> (both in \<open>[0,100]\<close>), the other
  three held fixed, does not lower the projected rate that the engine returns.
\<close>

theorem projectedTFR_monotone:
  assumes range: "\<forall>q. 0 \<le> pols q \<and> pols q \<le> 100"
    and x: "0 \<le> x" and xy: "x \<le> y" and y: "y \<le> 100"
  shows "projectedTFR (simulateTFRImpactForCountry (pols(p := x)) c)
         \<le> projectedTFR (simulateTFRImpactForCountry (pols(p := y)) c)"
proof -
  let ?c = "countryData c"
  have "\<forall>q. 0 \<le> (pols(p := x)) q" using range x by simp
  then have nonneg: "0 \<le> tfrImpact (policy_loop (pols(p := x)) ?c)"
    by (rule tfrImpact_nonneg)
  have "finalTFRIncrease (tfrImpact (policy_loop (pols(p := x)) ?c))
        \<le> finalTFRIncrease (tfrImpact (policy_loop (pols(p := y)) ?c))"
    using nonneg tfrImpact_mono [OF xy] by (rule finalTFRIncrease_mono)
  then show ?thesis
    unfolding sim_projectedTFR by (intro min.mono) simp_all
qed

text \<open>The monotonicity theorem at Japan, from the low preset, workplace AI raised from 50 to 100.\<close>

theorem projectedTFR_monotone_witness:
  "(\<forall>q. 0 \<le> mk_policies 20 20 20 20 q \<and> mk_policies 20 20 20 20 q \<le> 100)
   \<and> (0::real) \<le> 50 \<and> (50::real) \<le> 100 \<and> (100::real) \<le> 100
   \<and> projectedTFR (simulateTFRImpactForCountry ((mk_policies 20 20 20 20)(workplaceAI := 50)) japan)
      \<le> projectedTFR (simulateTFRImpactForCountry ((mk_policies 20 20 20 20)(workplaceAI := 100)) japan)"
proof -
  have r: "\<forall>q. 0 \<le> mk_policies 20 20 20 20 q \<and> mk_policies 20 20 20 20 q \<le> 100"
  proof
    fix q show "0 \<le> mk_policies 20 20 20 20 q \<and> mk_policies 20 20 20 20 q \<le> 100"
      by (cases q) simp_all
  qed
  have "projectedTFR (simulateTFRImpactForCountry ((mk_policies 20 20 20 20)(workplaceAI := 50)) japan)
      \<le> projectedTFR (simulateTFRImpactForCountry ((mk_policies 20 20 20 20)(workplaceAI := 100)) japan)"
    by (rule projectedTFR_monotone [OF r]) simp_all
  with r show ?thesis by simp
qed

text \<open>
  C2. For every country and every intensity vector the projected rate is at most \<open>2.5\<close>:
  it is the minimum of \<open>2.5\<close> and the baseline rate plus the final increase.
\<close>

theorem projectedTFR_ceiling:
  "projectedTFR (simulateTFRImpactForCountry pols c) \<le> 2.5
   \<and> projectedTFR (simulateTFRImpactForCountry pols c) =
       min 2.5 (baseTFR (countryData c)
                + finalTFRIncrease (tfrImpact (policy_loop pols (countryData c))))"
  unfolding sim_projectedTFR by (rule conjI [OF min.cobounded1 refl])

section \<open>Trajectory\<close>

lemma toFixed3_baseTFR: "toFixed3 (baseTFR (countryData c)) = baseTFR (countryData c)"
  by (cases c) (simp_all add: toFixed3_def Let_def)

lemma sim_projectionData_nth:
  assumes "y < 21"
  shows "projectionData (simulateTFRImpactForCountry pols c) ! y =
         projection_point_at (countryData c)
           (projectedTFR (simulateTFRImpactForCountry pols c)) y"
  using assms by (simp add: simulateTFRImpactForCountry_def Let_def del: upt_Suc)

lemma projected_year0:
  "projected (projectionData (simulateTFRImpactForCountry pols c) ! 0) = baseTFR (countryData c)"
  by (simp add: sim_projectionData_nth projection_point_at_def toFixed3_baseTFR)

lemma projected_saturated:
  assumes "10 \<le> y" "y \<le> 20"
  shows "projected (projectionData (simulateTFRImpactForCountry pols c) ! y)
         = toFixed3 (projectedTFR (simulateTFRImpactForCountry pols c))"
proof -
  from assms have lt: "y < 21" and ge: "1 \<le> real y / 10" by auto
  have "min 1 (real y / 10) = 1" using ge by (simp add: min_def)
  then show ?thesis
    by (simp add: sim_projectionData_nth [OF lt] projection_point_at_def Let_def)
qed

text \<open>
  C3, as amended. For every country and every intensity vector, the record at year offset 0
  has its interpolated rate equal to the baseline rate of the country, and every record at
  year offset 10 through 20 has its interpolated rate equal to the projected rate rounded to
  three decimal places.
\<close>

theorem trajectory_endpoints:
  "projected (projectionData (simulateTFRImpactForCountry pols c) ! 0) = baseTFR (countryData c)
   \<and> (\<forall>y \<in> {10..20}.
        projected (projectionData (simulateTFRImpactForCountry pols c) ! y)
        = toFixed3 (projectedTFR (simulateTFRImpactForCountry pols c)))"
  by (simp add: projected_year0 projected_saturated)

text \<open>The trajectory theorem at year offset 10, South Korea, all intensities at 100.\<close>

theorem trajectory_endpoints_witness:
  "(10::nat) \<in> {10..20}
   \<and> projected (projectionData
        (simulateTFRImpactForCountry (mk_policies 100 100 100 100) south_korea) ! 10)
     = toFixed3 (projectedTFR
        (simulateTFRImpactForCountry (mk_policies 100 100 100 100) south_korea))"
proof -
  have m: "(10::nat) \<in> {10..20}" by simp
  from trajectory_endpoints [of "mk_policies 100 100 100 100" south_korea] m
  show ?thesis by blast
qed

lemma exp_small_bounds:
  "0 < finalTFRIncrease (4 / 1000) \<and> finalTFRIncrease (4 / 1000) < 4 / 100000"
proof -
  have lo: "1 + (- (8 / 1000)) \<le> exp (- (8 / 1000) :: real)"
    by (rule exp_ge_add_one_self)
  have hi: "exp (- (8 / 1000) :: real) < 1"
    by simp
  have eq: "finalTFRIncrease (4 / 1000) = (4 / 1000) * (1 - exp (- (8 / 1000)))"
    by (simp add: finalTFRIncrease_def)
  show ?thesis unfolding eq using lo hi by auto
qed

text \<open>
  C3 as stated fails: for South Korea with only housing AI at 5, the projected rate lies
  strictly between \<open>0.72\<close> and \<open>0.72004\<close>, and the record at year offset 10 holds \<open>0.72\<close>.
\<close>

theorem trajectory_year10_counterexample:
  "projected (projectionData
      (simulateTFRImpactForCountry (mk_policies 0 0 0 5) south_korea) ! 10)
   \<noteq> projectedTFR (simulateTFRImpactForCountry (mk_policies 0 0 0 5) south_korea)"
proof -
  let ?f = "finalTFRIncrease (4 / 1000)"
  have f: "0 < ?f" "?f < 4 / 100000" using exp_small_bounds by auto
  have t: "tfrImpact (policy_loop (mk_policies 0 0 0 5) (countryData south_korea)) = 4 / 1000"
    by (simp add: loop_tfrImpact)
  have p: "projectedTFR (simulateTFRImpactForCountry (mk_policies 0 0 0 5) south_korea)
           = 72 / 100 + ?f"
    unfolding sim_projectedTFR t using f by (simp add: min_def)
  have fl: "\<lfloor>(72 / 100 + ?f) * 1000 + 1 / 2\<rfloor> = 720"
    using f by (intro floor_unique) auto
  have a: "\<bar>72 / 100 + ?f\<bar> = 72 / 100 + ?f" using f by simp
  have small: "\<not> 10 ^ 21 \<le> 72 / 100 + ?f" using f by simp
  have tf: "toFixed3 (72 / 100 + ?f) = 72 / 100"
    unfolding toFixed3_def Let_def a fl using small f by simp
  have "projected (projectionData
      (simulateTFRImpactForCountry (mk_policies 0 0 0 5) south_korea) ! 10) = 72 / 100"
    unfolding projected_saturated [of 10, simplified] p tf ..
  then show ?thesis unfolding p using f by simp
qed

section \<open>Cost, factors and return on investment\<close>

lemma sim_totalCost:
  "totalCost (simulateTFRImpactForCountry pols c)
   = totalCost_acc (policy_loop pols (countryData c)) / 1000000"
  by (simp add: simulateTFRImpactForCountry_def Let_def)

lemma sim_factorReductions:
  "factorReductions (simulateTFRImpactForCountry pols c)
   = factorReductions_acc (policy_loop pols (countryData c))"
  by (simp add: simulateTFRImpactForCountry_def Let_def)

lemma sim_roi:
  "roi (simulateTFRImpactForCountry pols c) =
     js_div ((projectedTFR (simulateTFRImpactForCountry pols c) - baseTFR (countryData c)) / 2
               * population (demographics (countryData c)) * 1000
               * gdpPerCapita (demographics (countryData c)) * 0.8)
            (totalCost_acc (policy_loop pols (countryData c)))"
  by (simp add: simulateTFRImpactForCountry_def Let_def)

lemma baseTFR_le: "baseTFR (countryData c) \<le> 2.5"
  by (cases c) simp_all

lemma projectedTFR_no_impact:
  assumes "tfrImpact (policy_loop pols (countryData c)) = 0"
  shows "projectedTFR (simulateTFRImpactForCountry pols c) = baseTFR (countryData c)"
  unfolding sim_projectedTFR assms using baseTFR_le [of c]
  by (simp add: finalTFRIncrease_def)

text \<open>
  C4. For every policy and every intensity, one turn of the loop adds to the total cost the
  policy's \<open>costPerPoint\<close> times the raw intensity (the value on the 0 to 100 scale), and adds
  to the impact the policy's \<open>maxImpact\<close> times the intensity over 100. The total cost
  accumulated over the four policies is the sum of these per-policy costs; the result reports
  the per-policy impact, and the per-policy costs and their total in millions.
\<close>

theorem policy_cost_and_impact:
  "totalCost_acc (policy_step pols p s)
     = totalCost_acc s + costPerPoint (aiInterventions p) * pols p
   \<and> tfrImpact (policy_step pols p s)
     = tfrImpact s + maxImpact (aiInterventions p) * (pols p / 100)
   \<and> policyCosts (simulateTFRImpactForCountry pols c) p
     = Some (costPerPoint (aiInterventions p) * pols p / 1000000)
   \<and> policyImpacts (simulateTFRImpactForCountry pols c) p
     = Some (maxImpact (aiInterventions p) * (pols p / 100))
   \<and> totalCost_acc (policy_loop pols (countryData c))
     = sum_list (map (\<lambda>q. costPerPoint (aiInterventions q) * pols q) policy_keys)
   \<and> totalCost (simulateTFRImpactForCountry pols c)
     = sum_list (map (\<lambda>q. costPerPoint (aiInterventions q) * pols q) policy_keys) / 1000000"
proof (intro conjI)
  show "totalCost_acc (policy_step pols p s)
     = totalCost_acc s + costPerPoint (aiInterventions p) * pols p"
    by (simp add: policy_step_def Let_def)
  show "tfrImpact (policy_step pols p s)
     = tfrImpact s + maxImpact (aiInterventions p) * (pols p / 100)"
    by (simp add: policy_step_def Let_def)
  show "policyCosts (simulateTFRImpactForCountry pols c) p
     = Some (costPerPoint (aiInterventions p) * pols p / 1000000)"
    by (simp add: simulateTFRImpactForCountry_def Let_def loop_policyCosts)
  show "policyImpacts (simulateTFRImpactForCountry pols c) p
     = Some (maxImpact (aiInterventions p) * (pols p / 100))"
    by (simp add: simulateTFRImpactForCountry_def Let_def loop_policyImpacts)
  show sum: "totalCost_acc (policy_loop pols (countryData c))
     = sum_list (map (\<lambda>q. costPerPoint (aiInterventions q) * pols q) policy_keys)"
    by (simp add: loop_totalCost policy_keys_def)
  show "totalCost (simulateTFRImpactForCountry pols c)
     = sum_list (map (\<lambda>q. costPerPoint (aiInterventions q) * pols q) policy_keys) / 1000000"
    unfolding sim_totalCost sum ..
qed

lemma declaring_policy:
  "f \<in> set (factors (aiInterventions p)) \<longleftrightarrow>
     (p, f) \<in> {(aiEducation, educationCost), (workplaceAI, workLifeBalance),
               (childcareAI, childcareCost), (housingAI, housingCost)}"
  by (cases p; cases f) simp_all

lemma one_declaring_policy: "\<exists>!p. f \<in> set (factors (aiInterventions p))"
proof (cases f)
  case educationCost
  show ?thesis unfolding declaring_policy educationCost by (intro ex1I [of _ aiEducation]) auto
next
  case workLifeBalance
  show ?thesis unfolding declaring_policy workLifeBalance by (intro ex1I [of _ workplaceAI]) auto
next
  case childcareCost
  show ?thesis unfolding declaring_policy childcareCost by (intro ex1I [of _ childcareAI]) auto
next
  case housingCost
  show ?thesis unfolding declaring_policy housingCost by (intro ex1I [of _ housingAI]) auto
qed

lemma untouched_factor:
  assumes "f \<in> set (factors (aiInterventions p))" "pols p = 0"
  shows "factorReductions (simulateTFRImpactForCountry pols c) f = baseFactors (countryData c) f"
  using assms unfolding declaring_policy sim_factorReductions loop_factorReductions
  by auto

text \<open>
  C5. For every country and every intensity vector each factor of the returned
  \<open>factorReductions\<close> is the baseline value times the multiplier of the policy that declares
  it: \<open>1 + fraction * 0.4\<close> for work-life balance, \<open>1 - fraction * 0.4\<close> for the three cost
  factors. Every factor is declared by exactly one policy, and a factor whose declaring policy
  has intensity 0 keeps its baseline value.
\<close>

theorem factorReductions_adjustment:
  "factorReductions (simulateTFRImpactForCountry pols c) educationCost
     = baseFactors (countryData c) educationCost * (1 - pols aiEducation / 100 * 0.4)
   \<and> factorReductions (simulateTFRImpactForCountry pols c) workLifeBalance
     = baseFactors (countryData c) workLifeBalance * (1 + pols workplaceAI / 100 * 0.4)
   \<and> factorReductions (simulateTFRImpactForCountry pols c) childcareCost
     = baseFactors (countryData c) childcareCost * (1 - pols childcareAI / 100 * 0.4)
   \<and> factorReductions (simulateTFRImpactForCountry pols c) housingCost
     = baseFactors (countryData c) housingCost * (1 - pols housingAI / 100 * 0.4)
   \<and> (\<forall>f. \<exists>!p. f \<in> set (factors (aiInterventions p)))
   \<and> (\<forall>p f. f \<in> set (factors (aiInterventions p)) \<and> pols p = 0 \<longrightarrow>
        factorReductions (simulateTFRImpactForCountry pols c) f = baseFactors (countryData c) f)"
proof (intro conjI allI impI)
  show "factorReductions (simulateTFRImpactForCountry pols c) educationCost
     = baseFactors (countryData c) educationCost * (1 - pols aiEducation / 100 * 0.4)"
    by (simp add: sim_factorReductions loop_factorReductions)
  show "factorReductions (simulateTFRImpactForCountry pols c) workLifeBalance
     = baseFactors (countryData c) workLifeBalance * (1 + pols workplaceAI / 100 * 0.4)"
    by (simp add: sim_factorReductions loop_factorReductions)
  show "factorReductions (simulateTFRImpactForCountry pols c) childcareCost
     = baseFactors (countryData c) childcareCost * (1 - pols childcareAI / 100 * 0.4)"
    by (simp add: sim_factorReductions loop_factorReductions)
  show "factorReductions (simulateTFRImpactForCountry pols c) housingCost
     = baseFactors (countryData c) housingCost * (1 - pols housingAI / 100 * 0.4)"
    by (simp add: sim_factorReductions loop_factorReductions)
  show "\<exists>!p. f \<in> set (factors (aiInterventions p))" for f
    by (rule one_declaring_policy)
  show "factorReductions (simulateTFRImpactForCountry pols c) f = baseFactors (countryData c) f"
    if "f \<in> set (factors (aiInterventions p)) \<and> pols p = 0" for p f
    using that by (intro untouched_factor [of f p]) simp_all
qed

text \<open>The last part of the theorem at Japan, education AI at 0 and the others at 50.\<close>

theorem factorReductions_adjustment_witness:
  "educationCost \<in> set (factors (aiInterventions aiEducation))
   \<and> mk_policies 0 50 50 50 aiEducation = 0
   \<and> factorReductions (simulateTFRImpactForCountry (mk_policies 0 50 50 50) japan) educationCost
     = baseFactors (countryData japan) educationCost"
proof -
  have h: "educationCost \<in> set (factors (aiInterventions aiEducation))
           \<and> mk_policies 0 50 50 50 aiEducation = 0"
    by simp
  from factorReductions_adjustment [of "mk_policies 0 50 50 50" japan] h
  show ?thesis by blast
qed

text \<open>
  C6. For every country, with all four intensities at zero the projected rate is the
  baseline rate of the country and the total cost is 0.
\<close>

theorem zero_intensities:
  "projectedTFR (simulateTFRImpactForCountry (mk_policies 0 0 0 0) c) = baseTFR (countryData c)
   \<and> totalCost (simulateTFRImpactForCountry (mk_policies 0 0 0 0) c) = 0"
proof
  have "tfrImpact (policy_loop (mk_policies 0 0 0 0) (countryData c)) = 0"
    by (simp add: loop_tfrImpact)
  then show "projectedTFR (simulateTFRImpactForCountry (mk_policies 0 0 0 0) c)
             = baseTFR (countryData c)"
    by (rule projectedTFR_no_impact)
  show "totalCost (simulateTFRImpactForCountry (mk_policies 0 0 0 0) c) = 0"
    by (simp add: sim_totalCost loop_totalCost)
qed

text \<open>
  C7. For every country and every intensity vector in \<open>[0,100]\<close>, when the total cost is
  zero the \<open>roi\<close> that the engine computes is NaN, not an infinity (nor a finite number).
\<close>

theorem roi_nan_when_no_cost:
  assumes range: "\<forall>q. 0 \<le> pols q \<and> pols q \<le> 100"
    and cost: "totalCost (simulateTFRImpactForCountry pols c) = 0"
  shows "roi (simulateTFRImpactForCountry pols c) = NaN"
proof -
  have nn: "0 \<le> pols aiEducation" "0 \<le> pols workplaceAI" "0 \<le> pols childcareAI"
       "0 \<le> pols housingAI"
    using range by auto
  have raw: "totalCost_acc (policy_loop pols (countryData c)) = 0"
    using cost by (simp add: sim_totalCost)
  then have z: "pols aiEducation = 0" "pols workplaceAI = 0" "pols childcareAI = 0"
       "pols housingAI = 0"
    using nn unfolding loop_totalCost by linarith+
  have "tfrImpact (policy_loop pols (countryData c)) = 0"
    by (simp add: loop_tfrImpact z)
  then have "projectedTFR (simulateTFRImpactForCountry pols c) = baseTFR (countryData c)"
    by (rule projectedTFR_no_impact)
  then show ?thesis
    unfolding sim_roi raw by (simp add: js_div_def)
qed

text \<open>The theorem at South Korea with all intensities at zero.\<close>

theorem roi_nan_when_no_cost_witness:
  "(\<forall>q. 0 \<le> mk_policies 0 0 0 0 q \<and> mk_policies 0 0 0 0 q \<le> 100)
   \<and> totalCost (simulateTFRImpactForCountry (mk_policies 0 0 0 0) south_korea) = 0
   \<and> roi (simulateTFRImpactForCountry (mk_policies 0 0 0 0) south_korea) = NaN"
proof -
  have r: "\<forall>q. 0 \<le> mk_policies 0 0 0 0 q \<and> mk_policies 0 0 0 0 q \<le> 100"
  proof
    fix q show "0 \<le> mk_policies 0 0 0 0 q \<and> mk_policies 0 0 0 0 q \<le> 100"
      by (cases q) simp_all
  qed
  have z: "totalCost (simulateTFRImpactForCountry (mk_policies 0 0 0 0) south_korea) = 0"
    by (simp add: sim_totalCost loop_totalCost)
  from roi_nan_when_no_cost [OF r z] r z show ?thesis by blast
qed

section \<open>The worked example\<close>

text \<open>Bounds on \<open>exp (- 0.9)\<close> from its Maclaurin polynomial of degree 7 and the remainder.\<close>

lemma exp_minus_09_bounds:
  "40655 / 100000 < exp (- (9 / 10) :: real) \<and> exp (- (9 / 10) :: real) < 4066 / 10000"
proof -
  obtain t :: real where t: "\<bar>t\<bar> \<le> \<bar>- (9 / 10)\<bar>"
    and e: "exp (- (9 / 10)) =
            (\<Sum>m<8. (- (9 / 10)) ^ m / fact m) + (exp t / fact 8) * (- (9 / 10)) ^ 8"
    using Maclaurin_exp_le [of "- (9 / 10)" 8] by blast
  have S: "(\<Sum>m<8. (- (9 / 10 :: real)) ^ m / fact m) = 2276735789 / 5600000000"
    by (simp add: eval_nat_numeral)
  have R: "(exp t / fact 8) * (- (9 / 10)) ^ 8 = exp t * (43046721 / 4032000000000)"
    by (simp add: eval_nat_numeral)
  have "t \<le> 1" using t by simp
  then have "exp t \<le> exp 1" by simp
  then have hi: "exp t \<le> 3" using exp_le by linarith
  have lo: "0 < exp t" by simp
  have "40655 / 100000 < 2276735789 / 5600000000 + exp t * (43046721 / 4032000000000)"
    using lo by linarith
  moreover have "2276735789 / 5600000000 + exp t * (43046721 / 4032000000000) < 4066 / 10000"
    using hi by linarith
  ultimately show ?thesis unfolding e S R by blast
qed

text \<open>
  C8. For South Korea (baseline \<open>0.72\<close>) with all four intensities at 100 the engine computes
  the total raw impact \<open>0.15 + 0.12 + 0.10 + 0.08 = 0.45\<close>, the final increase
  \<open>0.45 * (1 - exp (- 0.9))\<close>, which is \<open>0.267\<close> to three decimals, and a projected rate
  that is \<open>0.987\<close> to three decimals.
\<close>

theorem south_korea_full_intensity:
  "tfrImpact (policy_loop (mk_policies 100 100 100 100) (countryData south_korea))
     = 0.15 + 0.12 + 0.10 + 0.08
   \<and> tfrImpact (policy_loop (mk_policies 100 100 100 100) (countryData south_korea)) = 0.45
   \<and> finalTFRIncrease (tfrImpact (policy_loop (mk_policies 100 100 100 100)
                                     (countryData south_korea)))
     = 0.45 * (1 - exp (- 0.9))
   \<and> \<bar>finalTFRIncrease (tfrImpact (policy_loop (mk_policies 100 100 100 100)
                                      (countryData south_korea))) - 0.267\<bar> < 0.0005
   \<and> \<bar>projectedTFR (simulateTFRImpactForCountry (mk_policies 100 100 100 100) south_korea)
      - 0.987\<bar> < 0.0005"
proof -
  let ?t = "tfrImpact (policy_loop (mk_policies 100 100 100 100) (countryData south_korea))"
  have t: "?t = 45 / 100" by (simp add: loop_tfrImpact)
  have f: "finalTFRIncrease (45 / 100) = (45 / 100) * (1 - exp (- (9 / 10)))"
    by (simp add: finalTFRIncrease_def)
  note eb = exp_minus_09_bounds [THEN conjunct1] exp_minus_09_bounds [THEN conjunct2]
  have f': "finalTFRIncrease (45 / 100) = 45 / 100 - exp (- (9 / 10)) * (45 / 100)"
    unfolding f by (simp add: algebra_simps)
  have fl: "26703 / 100000 < finalTFRIncrease (45 / 100)"
    unfolding f' using eb by linarith
  have fu: "finalTFRIncrease (45 / 100) < 26706 / 100000"
    unfolding f' using eb by linarith
  note fb = fl fu
  have p: "projectedTFR (simulateTFRImpactForCountry (mk_policies 100 100 100 100) south_korea)
           = 72 / 100 + finalTFRIncrease (45 / 100)"
  proof -
    have "72 / 100 + finalTFRIncrease (45 / 100) \<le> 5 / 2" using fb by linarith
    then show ?thesis unfolding sim_projectedTFR t by (simp add: min_def)
  qed
  have 1: "?t = 0.15 + 0.12 + 0.10 + 0.08" unfolding t by simp
  have 2: "?t = 0.45" unfolding t by simp
  have 3: "finalTFRIncrease ?t = 0.45 * (1 - exp (- 0.9))" unfolding t f by simp
  have "\<bar>finalTFRIncrease (45 / 100) - 267 / 1000\<bar> < 5 / 10000" using fb by linarith
  then have 4: "\<bar>finalTFRIncrease ?t - 0.267\<bar> < 0.0005" unfolding t by simp
  have "\<bar>72 / 100 + finalTFRIncrease (45 / 100) - 987 / 1000\<bar> < 5 / 10000"
    using fb by linarith
  then have 5: "\<bar>projectedTFR (simulateTFRImpactForCountry (mk_policies 100 100 100 100) south_korea)
      - 0.987\<bar> < 0.0005"
    unfolding p by simp
  from 1 2 3 4 5 show ?thesis by blast
qed

section \<open>The two variants compared\<close>

lemma loop1_tfrImpact:
  "tfrImpact1 (policy_loop1 pols c) =
     0.15 * (pols aiEducation / 100) + 0.12 * (pols workplaceAI / 100)
     + 0.10 * (pols childcareAI / 100) + 0.08 * (pols housingAI / 100)"
  by (simp add: policy_loop1_def policy_keys_def policy_step1_def Let_def)

lemma loop1_same_impact:
  "tfrImpact1 (policy_loop1 pols c1) = tfrImpact (policy_loop pols c)"
  unfolding loop1_tfrImpact loop_tfrImpact ..

lemma sim1_projectedTFR:
  "projectedTFR1 (simulateTFRImpact pols c) =
     min 2.5 (baseTFR (countryData1 c)
              + finalTFRIncrease (tfrImpact1 (policy_loop1 pols (countryData1 c))))"
  by (simp add: simulateTFRImpact_def Let_def)

lemma finalTFRIncrease_bounded:
  assumes "\<forall>q. 0 \<le> pols q \<and> pols q \<le> 100"
  shows "finalTFRIncrease (tfrImpact (policy_loop pols c)) \<le> 0.45"
proof -
  have "0 \<le> tfrImpact (policy_loop pols c)"
    using assms by (intro tfrImpact_nonneg) simp
  then have "finalTFRIncrease (tfrImpact (policy_loop pols c)) \<le> tfrImpact (policy_loop pols c)"
    by (rule finalTFRIncrease_le_self)
  also have "\<dots> \<le> 0.45" using assms by (rule tfrImpact_le)
  finally show ?thesis .
qed

lemma variants_south_korea:
  "projectedTFR1 (simulateTFRImpact pols south_korea)
   = projectedTFR (simulateTFRImpactForCountry pols south_korea)"
  unfolding sim1_projectedTFR sim_projectedTFR loop1_same_impact [of pols _ "countryData south_korea"]
  by simp

lemma variants_japan:
  assumes "\<forall>q. 0 \<le> pols q \<and> pols q \<le> 100"
  shows "projectedTFR1 (simulateTFRImpact pols japan)
         = projectedTFR (simulateTFRImpactForCountry pols japan) + 0.06"
proof -
  let ?f = "finalTFRIncrease (tfrImpact (policy_loop pols (countryData japan)))"
  have b: "?f \<le> 45 / 100" using finalTFRIncrease_bounded [OF assms, of "countryData japan"] by simp
  have 1: "projectedTFR1 (simulateTFRImpact pols japan) = 126 / 100 + ?f"
    unfolding sim1_projectedTFR loop1_same_impact [of pols _ "countryData japan"]
    using b by (simp add: min_def)
  have 2: "projectedTFR (simulateTFRImpactForCountry pols japan) = 120 / 100 + ?f"
    unfolding sim_projectedTFR using b by (simp add: min_def)
  show ?thesis unfolding 1 2 by simp
qed

text \<open>
  C9, as amended. For South Korea and every intensity vector the single-country page and the
  multi-country page compute the same projected rate. For Japan the baselines differ
  (\<open>1.26\<close> on the single-country page, \<open>1.20\<close> on the multi-country page): for every
  intensity vector in \<open>[0,100]\<close> the projected rate of the single-country page is that of
  the multi-country page plus \<open>0.06\<close>.
\<close>

theorem variants_projectedTFR:
  "projectedTFR1 (simulateTFRImpact pols south_korea)
     = projectedTFR (simulateTFRImpactForCountry pols south_korea)
   \<and> ((\<forall>q. 0 \<le> pols q \<and> pols q \<le> 100) \<longrightarrow>
        projectedTFR1 (simulateTFRImpact pols japan)
        = projectedTFR (simulateTFRImpactForCountry pols japan) + 0.06)"
  using variants_south_korea variants_japan by blast

lemma mk_policies_range:
  assumes "0 \<le> a \<and> a \<le> 100" "0 \<le> w \<and> w \<le> 100" "0 \<le> ch \<and> ch \<le> 100"
    "0 \<le> h \<and> h \<le> 100"
  shows "\<forall>q. 0 \<le> mk_policies a w ch h q \<and> mk_policies a w ch h q \<le> 100"
proof
  fix q show "0 \<le> mk_policies a w ch h q \<and> mk_policies a w ch h q \<le> 100"
    using assms by (cases q) simp_all
qed

text \<open>The Japan part of the theorem at the balanced preset.\<close>

theorem variants_projectedTFR_witness:
  "(\<forall>q. 0 \<le> mk_policies 50 50 50 50 q \<and> mk_policies 50 50 50 50 q \<le> 100)
   \<and> projectedTFR1 (simulateTFRImpact (mk_policies 50 50 50 50) japan)
     = projectedTFR (simulateTFRImpactForCountry (mk_policies 50 50 50 50) japan) + 0.06"
proof -
  have r: "\<forall>q. 0 \<le> mk_policies 50 50 50 50 q \<and> mk_policies 50 50 50 50 q \<le> 100"
    by (rule mk_policies_range) simp_all
  from variants_projectedTFR [of "mk_policies 50 50 50 50"] r show ?thesis by blast
qed

text \<open>
  C9 as stated fails for Japan: with all intensities at zero the single-country page
  projects \<open>1.26\<close> and the multi-country page \<open>1.20\<close>.
\<close>

theorem variants_japan_counterexample:
  "projectedTFR1 (simulateTFRImpact (mk_policies 0 0 0 0) japan)
   \<noteq> projectedTFR (simulateTFRImpactForCountry (mk_policies 0 0 0 0) japan)"
proof -
  have "tfrImpact (policy_loop (mk_policies 0 0 0 0) (countryData japan)) = 0"
    by (simp add: loop_tfrImpact)
  then have 2: "projectedTFR (simulateTFRImpactForCountry (mk_policies 0 0 0 0) japan) = 120 / 100"
    unfolding sim_projectedTFR by (simp add: finalTFRIncrease_def)
  have "tfrImpact1 (policy_loop1 (mk_policies 0 0 0 0) (countryData1 japan)) = 0"
    by (simp add: loop1_tfrImpact)
  then have 1: "projectedTFR1 (simulateTFRImpact (mk_policies 0 0 0 0) japan) = 126 / 100"
    unfolding sim1_projectedTFR by (simp add: finalTFRIncrease_def)
  show ?thesis unfolding 1 2 by simp
qed

section \<open>Range of the adjusted factors\<close>

lemma baseFactors_bounds:
  "0 \<le> baseFactors (countryData c) f \<and> baseFactors (countryData c) f \<le> 90
   \<and> baseFactors (countryData c) workLifeBalance \<le> 30"
  by (cases c; cases f) simp_all

lemma cost_factor_scaled:
  assumes "0 \<le> i" "i \<le> 100" "0 \<le> (b::real)"
  shows "0.6 * b \<le> b * (1 - i / 100 * 0.4) \<and> b * (1 - i / 100 * 0.4) \<le> b"
proof -
  have m: "6 / 10 \<le> 1 - i / 100 * (4 / 10)" "1 - i / 100 * (4 / 10) \<le> 1"
    using assms by simp_all
  have "b * (6 / 10) \<le> b * (1 - i / 100 * (4 / 10))"
    using m(1) assms(3) by (rule mult_left_mono)
  moreover have "b * (1 - i / 100 * (4 / 10)) \<le> b * 1"
    using m(2) assms(3) by (rule mult_left_mono)
  ultimately show ?thesis by simp
qed

lemma positive_factor_scaled:
  assumes "0 \<le> i" "i \<le> 100" "0 \<le> (b::real)"
  shows "b \<le> b * (1 + i / 100 * 0.4) \<and> b * (1 + i / 100 * 0.4) \<le> 1.4 * b"
proof -
  have m: "1 \<le> 1 + i / 100 * (4 / 10)" "1 + i / 100 * (4 / 10) \<le> 14 / 10"
    using assms by simp_all
  have "b * 1 \<le> b * (1 + i / 100 * (4 / 10))"
    using m(1) assms(3) by (rule mult_left_mono)
  moreover have "b * (1 + i / 100 * (4 / 10)) \<le> b * (14 / 10)"
    using m(2) assms(3) by (rule mult_left_mono)
  ultimately show ?thesis by simp
qed

text \<open>
  C10. For both countries and every intensity vector in \<open>[0,100]\<close>, every value of the
  returned \<open>factorReductions\<close> lies in \<open>[0,100]\<close>: a cost factor lies between \<open>0.6\<close> times
  its baseline and its baseline, and work-life balance between its baseline, which is at
  most 30, and \<open>1.4\<close> times its baseline.
\<close>

theorem factorReductions_range:
  assumes range: "\<forall>q. 0 \<le> pols q \<and> pols q \<le> 100"
  shows "0 \<le> factorReductions (simulateTFRImpactForCountry pols c) f
   \<and> factorReductions (simulateTFRImpactForCountry pols c) f \<le> 100
   \<and> (f \<noteq> workLifeBalance \<longrightarrow>
        0.6 * baseFactors (countryData c) f
          \<le> factorReductions (simulateTFRImpactForCountry pols c) f
        \<and> factorReductions (simulateTFRImpactForCountry pols c) f
          \<le> baseFactors (countryData c) f)
   \<and> (f = workLifeBalance \<longrightarrow>
        baseFactors (countryData c) f
          \<le> factorReductions (simulateTFRImpactForCountry pols c) f
        \<and> factorReductions (simulateTFRImpactForCountry pols c) f
          \<le> 1.4 * baseFactors (countryData c) f
        \<and> baseFactors (countryData c) f \<le> 30)"
proof -
  let ?b = "baseFactors (countryData c)"
  let ?r = "factorReductions (simulateTFRImpactForCountry pols c)"
  have b: "0 \<le> ?b g" "?b g \<le> 90" "?b workLifeBalance \<le> 30" for g
    using baseFactors_bounds [of c g] by simp_all
  have i: "0 \<le> pols q" "pols q \<le> 100" for q using range by simp_all
  show ?thesis
  proof (cases f)
    case educationCost
    have "?r f = ?b f * (1 - pols aiEducation / 100 * 0.4)"
      by (simp add: educationCost sim_factorReductions loop_factorReductions)
    with cost_factor_scaled [OF i [of aiEducation] b(1) [of f]] b(1) [of f] b(2) [of f] b(3) educationCost
    show ?thesis by auto
  next
    case workLifeBalance
    have "?r f = ?b f * (1 + pols workplaceAI / 100 * 0.4)"
      by (simp add: workLifeBalance sim_factorReductions loop_factorReductions)
    with positive_factor_scaled [OF i [of workplaceAI] b(1) [of f]] b(1) [of f] b(2) [of f] b(3) workLifeBalance
    show ?thesis by auto
  next
    case childcareCost
    have "?r f = ?b f * (1 - pols childcareAI / 100 * 0.4)"
      by (simp add: childcareCost sim_factorReductions loop_factorReductions)
    with cost_factor_scaled [OF i [of childcareAI] b(1) [of f]] b(1) [of f] b(2) [of f] b(3) childcareCost
    show ?thesis by auto
  next
    case housingCost
    have "?r f = ?b f * (1 - pols housingAI / 100 * 0.4)"
      by (simp add: housingCost sim_factorReductions loop_factorReductions)
    with cost_factor_scaled [OF i [of housingAI] b(1) [of f]] b(1) [of f] b(2) [of f] b(3) housingCost
    show ?thesis by auto
  qed
qed

text \<open>The theorem at South Korea, all intensities at 100, for work-life balance and housing cost.\<close>

theorem factorReductions_range_witness:
  "(\<forall>q. 0 \<le> mk_policies 100 100 100 100 q \<and> mk_policies 100 100 100 100 q \<le> 100)
   \<and> 0 \<le> factorReductions (simulateTFRImpactForCountry (mk_policies 100 100 100 100) south_korea)
           workLifeBalance
   \<and> factorReductions (simulateTFRImpactForCountry (mk_policies 100 100 100 100) south_korea)
           workLifeBalance \<le> 100
   \<and> factorReductions (simulateTFRImpactForCountry (mk_policies 100 100 100 100) south_korea)
           workLifeBalance \<le> 1.4 * baseFactors (countryData south_korea) workLifeBalance
   \<and> 0.6 * baseFactors (countryData south_korea) housingCost
       \<le> factorReductions (simulateTFRImpactForCountry (mk_policies 100 100 100 100) south_korea)
           housingCost"
proof -
  have r: "\<forall>q. 0 \<le> mk_policies 100 100 100 100 q \<and> mk_policies 100 100 100 100 q \<le> 100"
    by (rule mk_policies_range) simp_all
  have d: "housingCost \<noteq> workLifeBalance" by simp
  from factorReductions_range [OF r, of south_korea workLifeBalance]
    factorReductions_range [OF r, of south_korea housingCost] r d
  show ?thesis by blast
qed

end
